theory Spec2Isabelle
  imports Main "HOL-Library.AList"
begin

section \<open>Data model\<close>

text \<open>
  The pipeline of \<^verbatim>\<open>src/file_processor.py\<close> works on pandas data frames. A frame is
  modelled column-wise, as pandas stores it: the length of its row index and the list of
  its columns, each a name with the values of that column. A value is a text, an integer,
  a timestamp (the normalized temporal type), the missing-date marker \<open>NaT\<close> or the
  missing-value marker \<open>NaN\<close>.
\<close>

datatype cell = Str string | Num int | Timestamp int | NaT | NaN

record dataframe =
  nrows :: nat
  cols :: "(string \<times> cell list) list"

definition columns :: "dataframe \<Rightarrow> string list" where
  "columns df = map fst (cols df)"

text \<open>\<^verbatim>\<open>df.empty\<close>: true when either axis of the frame has length zero.\<close>

definition df_empty :: "dataframe \<Rightarrow> bool" where
  "df_empty df = (nrows df = 0 \<or> cols df = [])"

text \<open>
  Exceptions are values. The classes are the ones the handlers of the source tell apart;
  \<open>OtherError\<close> carries the class name and the message of any other subclass of
  \<^verbatim>\<open>Exception\<close>.
\<close>

datatype exn =
    FileNotFoundError
  | PermissionError
  | EmptyDataError
  | ParserError string
  | KeyError string
  | OtherError string string

text \<open>
  Every \<^verbatim>\<open>print\<close> of the source is an event; what a call prints is the list of
  its events in order.
\<close>

datatype event =
    LogReading string
  | LogInvalidDates nat
  | LogReadOk
  | LogRows nat
  | LogCols nat
  | LogFileNotFound string
  | LogEmptyFile string
  | LogParserError string
  | LogDetail string
  | LogUnexpected string string string
  | LogValidating
  | LogValNone
  | LogValEmpty
  | LogValMissing "string list"
  | LogVisibleCols "string list"
  | LogValOk
  | LogSearching string
  | LogFound nat
  | LogCsvCount nat
  | LogNoCsv
  | LogHint string
  | LogToProcess "string list"
  | LogDirNotFound string
  | LogNoPermission string
  | LogProcessing string
  | LogFileOk string
  | LogFileFailed string
  | LogSummary
  | LogProcessedCount nat
  | LogOkCount nat
  | LogFailedCount nat
  | LogFailedList "string list"
  | LogCombining nat
  | LogDone
  | LogTotal nat
  | LogDateRange cell cell
  | LogMachines nat
  | LogShifts "cell list"
  | LogNoneOk

section \<open>Validator\<close>

definition required_colums :: "string list" where
  "required_colums = [''fecha'', ''turno'', ''maquina'', ''produccion_unidades'', ''operario'']"

definition missing_colums :: "dataframe \<Rightarrow> string list" where
  "missing_colums df = filter (\<lambda>col. col \<notin> set (columns df)) required_colums"

text \<open>
  \<^verbatim>\<open>validate_data(df)\<close>: what it prints and the decision it returns. The
  argument is optional, as in the source (\<^verbatim>\<open>df is None\<close>).
\<close>

definition validate_data :: "dataframe option \<Rightarrow> event list \<times> bool" where
  "validate_data d =
     (case d of
        None \<Rightarrow> ([LogValidating, LogValNone], False)
      | Some df \<Rightarrow>
          if df_empty df then ([LogValidating, LogValEmpty], False)
          else if missing_colums df \<noteq> []
          then ([LogValidating, LogValMissing (missing_colums df), LogVisibleCols (columns df)], False)
          else ([LogValidating, LogValOk], True))"

section \<open>The world outside the program\<close>

text \<open>
  The file system, the pandas reader, the date conversion and the clock are not code of
  the repository: they are parameters of the model. \<open>listdir\<close> is the outcome of
  \<^verbatim>\<open>os.listdir\<close> on a folder, \<open>pd_read_csv\<close> the outcome of \<^verbatim>\<open>pd.read_csv\<close> on a path
  (a frame, or the exception it raises), \<open>to_datetime\<close> the conversion of a column by
  \<^verbatim>\<open>pd.to_datetime(..., errors='coerce')\<close>, with \<open>None\<close> where a value cannot be
  converted, and \<open>now k\<close> the value of the \<open>k\<close>-th call of \<^verbatim>\<open>datetime.now()\<close> in a
  run. pandas raises \<^verbatim>\<open>EmptyDataError\<close> on a file of zero bytes and returns a frame with
  the header's columns and no rows on a file that holds a header row only.
\<close>

record env =
  listdir :: "string \<Rightarrow> exn + string list"
  pd_read_csv :: "string \<Rightarrow> exn + dataframe"
  to_datetime :: "cell list \<Rightarrow> int option list"
  now :: "nat \<Rightarrow> int"

text \<open>\<^verbatim>\<open>type(e).__name__\<close> and \<^verbatim>\<open>str(e)\<close> of an exception.\<close>

fun class_name :: "exn \<Rightarrow> string" where
  "class_name FileNotFoundError = ''FileNotFoundError''"
| "class_name PermissionError = ''PermissionError''"
| "class_name EmptyDataError = ''EmptyDataError''"
| "class_name (ParserError m) = ''ParserError''"
| "class_name (KeyError k) = ''KeyError''"
| "class_name (OtherError c m) = c"

fun message :: "exn \<Rightarrow> string" where
  "message (ParserError m) = m"
| "message (KeyError k) = k"
| "message (OtherError c m) = m"
| "message e = []"

text \<open>\<^verbatim>\<open>s.endswith(suf)\<close> and \<^verbatim>\<open>os.path.join(a, b)\<close> (POSIX).\<close>

definition endswith :: "string \<Rightarrow> string \<Rightarrow> bool" where
  "endswith s suf = (length suf \<le> length s \<and> drop (length s - length suf) s = suf)"

definition path_join :: "string \<Rightarrow> string \<Rightarrow> string" where
  "path_join a b =
     (if b \<noteq> [] \<and> hd b = CHR ''/'' then b
      else if a = [] \<or> last a = CHR ''/'' then a @ b
      else a @ ''/'' @ b)"

subsection \<open>Operations on frames\<close>

text \<open>\<^verbatim>\<open>df[name]\<close> raises \<^verbatim>\<open>KeyError\<close> when the frame has no such column.\<close>

definition getcol :: "string \<Rightarrow> dataframe \<Rightarrow> exn + cell list" where
  "getcol name df =
     (case map_of (cols df) name of None \<Rightarrow> Inl (KeyError name) | Some vs \<Rightarrow> Inr vs)"

text \<open>
  \<^verbatim>\<open>df[name] = v\<close> with a scalar: every row gets \<open>v\<close>; an existing column keeps its
  place, a new one is appended.
\<close>

definition set_col :: "string \<Rightarrow> cell \<Rightarrow> dataframe \<Rightarrow> dataframe" where
  "set_col name v df = df\<lparr>cols := AList.update name (replicate (nrows df) v) (cols df)\<rparr>"

definition coerce :: "int option \<Rightarrow> cell" where
  "coerce t = (case t of None \<Rightarrow> NaT | Some x \<Rightarrow> Timestamp x)"

definition isna :: "cell \<Rightarrow> bool" where
  "isna c = (c = NaT \<or> c = NaN)"

text \<open>The distinct values of a column in order of first appearance.\<close>

definition unique :: "'a list \<Rightarrow> 'a list" where
  "unique xs = rev (remdups (rev xs))"

definition nunique :: "cell list \<Rightarrow> nat" where
  "nunique vs = length (remdups (filter (\<lambda>c. \<not> isna c) vs))"

text \<open>
  \<^verbatim>\<open>min()\<close> and \<^verbatim>\<open>max()\<close> of a converted date column skip the missing values and
  give \<open>NaT\<close> when nothing is left.
\<close>

fun stamp_of :: "cell \<Rightarrow> int option" where
  "stamp_of (Timestamp t) = Some t"
| "stamp_of c = None"

definition col_min :: "cell list \<Rightarrow> cell" where
  "col_min vs =
     (case List.map_filter stamp_of vs of [] \<Rightarrow> NaT | t # ts \<Rightarrow> Timestamp (fold min ts t))"

definition col_max :: "cell list \<Rightarrow> cell" where
  "col_max vs =
     (case List.map_filter stamp_of vs of [] \<Rightarrow> NaT | t # ts \<Rightarrow> Timestamp (fold max ts t))"

text \<open>
  \<^verbatim>\<open>pd.concat(dfs, ignore_index=True)\<close>: the rows of the frames one after another under
  a fresh index, over the union of their columns in order of first appearance; a frame
  that lacks a column contributes \<open>NaN\<close> there. An empty list of frames is an error.
\<close>

definition column_or_nan :: "string \<Rightarrow> dataframe \<Rightarrow> cell list" where
  "column_or_nan c d =
     (case map_of (cols d) c of Some vs \<Rightarrow> vs | None \<Rightarrow> replicate (nrows d) NaN)"

definition concat_frames :: "dataframe list \<Rightarrow> dataframe" where
  "concat_frames dfs =
     \<lparr>nrows = sum_list (map nrows dfs),
      cols = map (\<lambda>c. (c, concat (map (column_or_nan c) dfs)))
                 (unique (concat (map columns dfs)))\<rparr>"

definition pd_concat :: "dataframe list \<Rightarrow> exn + dataframe" where
  "pd_concat dfs =
     (if dfs = [] then Inl (OtherError ''ValueError'' ''No objects to concatenate'')
      else Inr (concat_frames dfs))"

section \<open>Parser\<close>

text \<open>
  The conversion of the \<^verbatim>\<open>fecha\<close> column in \<^verbatim>\<open>read_csv_file\<close>: the column is replaced
  by its converted values, and the number of missing dates is printed as a warning when
  it is positive.
\<close>

definition convert_fecha :: "env \<Rightarrow> dataframe \<Rightarrow> event list \<times> dataframe" where
  "convert_fecha e df =
     (case map_of (cols df) ''fecha'' of
        None \<Rightarrow> ([], df)
      | Some old \<Rightarrow>
          (let vs = map coerce (to_datetime e old);
               invalid_dates = length (filter isna vs)
           in (if invalid_dates > 0 then [LogInvalidDates invalid_dates] else [],
               df\<lparr>cols := AList.update ''fecha'' vs (cols df)\<rparr>)))"

text \<open>The \<^verbatim>\<open>except\<close> clauses of \<^verbatim>\<open>read_csv_file\<close>, in the order of the source.\<close>

fun read_handler :: "string \<Rightarrow> exn \<Rightarrow> event list" where
  "read_handler filepath FileNotFoundError = [LogFileNotFound filepath]"
| "read_handler filepath EmptyDataError = [LogEmptyFile filepath]"
| "read_handler filepath (ParserError m) = [LogParserError filepath, LogDetail m]"
| "read_handler filepath e = [LogUnexpected filepath (class_name e) (message e)]"

definition read_csv_file :: "env \<Rightarrow> string \<Rightarrow> event list \<times> dataframe option" where
  "read_csv_file e filepath =
     (case pd_read_csv e filepath of
        Inl x \<Rightarrow> (LogReading filepath # read_handler filepath x, None)
      | Inr df \<Rightarrow>
          (let (warn, df') = convert_fecha e df
           in (LogReading filepath # warn @
                 [LogReadOk, LogRows (nrows df'), LogCols (length (columns df'))],
               Some df')))"

section \<open>Batch run\<close>

text \<open>The local variables of \<^verbatim>\<open>process_all_files\<close>, the clock and what was printed.\<close>

record run_state =
  valid_dataframes :: "dataframe list"
  processed_files :: "string list"
  failed_files :: "string list"
  clock_calls :: nat
  printed :: "event list"

text \<open>One round of the loop over \<^verbatim>\<open>csv_files\<close>.\<close>

definition process_file :: "env \<Rightarrow> string \<Rightarrow> string \<Rightarrow> run_state \<Rightarrow> run_state" where
  "process_file e folder filename st =
     (let filepath = path_join folder filename;
          (out_r, d) = read_csv_file e filepath;
          st1 = st\<lparr>processed_files := processed_files st @ [filename],
                   printed := printed st @ LogProcessing filename # out_r\<rparr>
      in case d of
           None \<Rightarrow>
             st1\<lparr>failed_files := failed_files st1 @ [filename],
                 printed := printed st1 @ [LogFileFailed filename]\<rparr>
         | Some df \<Rightarrow>
             (let (out_v, ok) = validate_data (Some df)
              in if ok
                 then st1\<lparr>valid_dataframes := valid_dataframes st1 @
                            [set_col ''fecha_procesamiento'' (Timestamp (now e (clock_calls st1)))
                               (set_col ''archivo_origen'' (Str filename) df)],
                          clock_calls := Suc (clock_calls st1),
                          printed := printed st1 @ out_v @ [LogFileOk filename]\<rparr>
                 else st1\<lparr>failed_files := failed_files st1 @ [filename],
                          printed := printed st1 @ out_v @ [LogFileFailed filename]\<rparr>))"

fun process_loop :: "env \<Rightarrow> string \<Rightarrow> string list \<Rightarrow> run_state \<Rightarrow> run_state" where
  "process_loop e folder [] st = st"
| "process_loop e folder (filename # rest) st =
     process_loop e folder rest (process_file e folder filename st)"

definition csv_files_of :: "string list \<Rightarrow> string list" where
  "csv_files_of all_files = filter (\<lambda>f. endswith f ''.csv'') all_files"

definition discovery_output :: "string \<Rightarrow> string list \<Rightarrow> event list" where
  "discovery_output folder all_files =
     [LogSearching folder, LogFound (length all_files),
      LogCsvCount (length (csv_files_of all_files))]"

text \<open>The state at the end of the loop, from the empty lists the source starts with.\<close>

definition run_loop :: "env \<Rightarrow> string \<Rightarrow> string list \<Rightarrow> run_state" where
  "run_loop e folder all_files =
     process_loop e folder (csv_files_of all_files)
       \<lparr>valid_dataframes = [], processed_files = [], failed_files = [], clock_calls = 0,
        printed = discovery_output folder all_files @ [LogToProcess (csv_files_of all_files)]\<rparr>"

definition summary_output :: "run_state \<Rightarrow> event list" where
  "summary_output st =
     [LogSummary, LogProcessedCount (length (processed_files st)),
      LogOkCount (length (valid_dataframes st)), LogFailedCount (length (failed_files st))] @
     (if failed_files st \<noteq> [] then [LogFailedList (failed_files st)] else [])"

text \<open>
  The merge and the summary statistics: each statistic reads its column before its line
  is printed, so a missing column ends the run with the lines printed so far.
\<close>

definition combine :: "dataframe list \<Rightarrow> event list \<times> (exn + dataframe option)" where
  "combine dfs =
     (case pd_concat dfs of
        Inl x \<Rightarrow> ([LogCombining (length dfs)], Inl x)
      | Inr combined_df \<Rightarrow>
          (let out1 = [LogCombining (length dfs), LogDone, LogTotal (nrows combined_df)]
           in case getcol ''fecha'' combined_df of
                Inl x \<Rightarrow> (out1, Inl x)
              | Inr fechas \<Rightarrow>
                  (let out2 = out1 @ [LogDateRange (col_min fechas) (col_max fechas)]
                   in case getcol ''maquina'' combined_df of
                        Inl x \<Rightarrow> (out2, Inl x)
                      | Inr maquinas \<Rightarrow>
                          (let out3 = out2 @ [LogMachines (nunique maquinas)]
                           in case getcol ''turno'' combined_df of
                                Inl x \<Rightarrow> (out3, Inl x)
                              | Inr turnos \<Rightarrow>
                                  (out3 @ [LogShifts (unique turnos)], Inr (Some combined_df))))))"

text \<open>
  \<^verbatim>\<open>process_all_files()\<close> on the folder of the processor: what is printed and either the
  exception that leaves the call or the value returned, \<open>None\<close> for Python's
  \<^verbatim>\<open>None\<close>.
\<close>

definition process_all_files :: "env \<Rightarrow> string \<Rightarrow> event list \<times> (exn + dataframe option)" where
  "process_all_files e folder =
     (case listdir e folder of
        Inl FileNotFoundError \<Rightarrow> ([LogSearching folder, LogDirNotFound folder], Inr None)
      | Inl PermissionError \<Rightarrow> ([LogSearching folder, LogNoPermission folder], Inr None)
      | Inl x \<Rightarrow> ([LogSearching folder], Inl x)
      | Inr all_files \<Rightarrow>
          if csv_files_of all_files = []
          then (discovery_output folder all_files @ [LogNoCsv, LogHint folder], Inr None)
          else
            (let st = run_loop e folder all_files;
                 out = printed st @ summary_output st
             in if valid_dataframes st \<noteq> []
                then (let (out_c, r) = combine (valid_dataframes st) in (out @ out_c, r))
                else (out @ [LogNoneOk], Inr None)))"

section \<open>Vocabulary of the properties\<close>

text \<open>
  The failure kinds of the parser are read off what it prints: each \<^verbatim>\<open>except\<close> clause
  of \<^verbatim>\<open>read_csv_file\<close> prints its own line and returns \<^verbatim>\<open>None\<close>.
\<close>

datatype failure = FileNotFound | EmptyInput | MalformedInput | UnexpectedFailure

fun failure_of :: "event \<Rightarrow> failure option" where
  "failure_of (LogFileNotFound p) = Some FileNotFound"
| "failure_of (LogEmptyFile p) = Some EmptyInput"
| "failure_of (LogParserError p) = Some MalformedInput"
| "failure_of (LogUnexpected p c m) = Some UnexpectedFailure"
| "failure_of ev = None"

definition failures :: "event list \<Rightarrow> failure list" where
  "failures out = List.map_filter failure_of out"

text \<open>
  What the parser returns for a file of the folder, whether the file passes parser and
  validator, and the number of rows of the parsed table.
\<close>

definition parsed :: "env \<Rightarrow> string \<Rightarrow> string \<Rightarrow> dataframe option" where
  "parsed e folder f = snd (read_csv_file e (path_join folder f))"

definition accepted :: "env \<Rightarrow> string \<Rightarrow> string \<Rightarrow> bool" where
  "accepted e folder f =
     (case parsed e folder f of None \<Rightarrow> False | Some df \<Rightarrow> snd (validate_data (Some df)))"

definition parsed_rows :: "env \<Rightarrow> string \<Rightarrow> string \<Rightarrow> nat" where
  "parsed_rows e folder f = (case parsed e folder f of None \<Rightarrow> 0 | Some df \<Rightarrow> nrows df)"

text \<open>The failure kind of each exception, by the \<^verbatim>\<open>except\<close> clause that catches it.\<close>

fun failure_kind :: "exn \<Rightarrow> failure" where
  "failure_kind FileNotFoundError = FileNotFound"
| "failure_kind EmptyDataError = EmptyInput"
| "failure_kind (ParserError m) = MalformedInput"
| "failure_kind x = UnexpectedFailure"

text \<open>The source file a row of a collected frame names, read from its first row.\<close>

definition origen :: "dataframe \<Rightarrow> string option" where
  "origen df =
     (case map_of (cols df) ''archivo_origen'' of
        Some (Str f # rest) \<Rightarrow> Some f
      | _ \<Rightarrow> None)"

text \<open>A frame without one of its columns, and a result without the processing timestamp.\<close>

definition drop_col :: "string \<Rightarrow> dataframe \<Rightarrow> dataframe" where
  "drop_col name df = df\<lparr>cols := filter (\<lambda>p. fst p \<noteq> name) (cols df)\<rparr>"

definition without_timestamp :: "exn + dataframe option \<Rightarrow> exn + dataframe option" where
  "without_timestamp r = map_sum id (map_option (drop_col ''fecha_procesamiento'')) r"

text \<open>
  The lines that report an input as empty: the parser's line for a file in which the
  reader finds no columns, and the validator's line for a table without rows.
\<close>

fun empty_input_line :: "event \<Rightarrow> bool" where
  "empty_input_line (LogEmptyFile p) = True"
| "empty_input_line LogValEmpty = True"
| "empty_input_line ev = False"

text \<open>The invariant of the frames collected by the loop.\<close>

definition stamped :: "dataframe \<Rightarrow> bool" where
  "stamped df =
     (0 < nrows df \<and>
      set required_colums \<union> {''archivo_origen'', ''fecha_procesamiento''} \<subseteq> set (columns df))"

subsection \<open>A sample folder\<close>

definition frame_a :: dataframe where
  "frame_a =
     \<lparr>nrows = 2,
      cols = [(''fecha'', [Str ''2025-09-01'', Str ''ayer'']),
              (''turno'', [Str ''A'', Str ''B'']),
              (''maquina'', [Str ''ATM-1'', Str ''ATM-1'']),
              (''produccion_unidades'', [Num 120, Num 95]),
              (''operario'', [Str ''Ana'', Str ''Luis''])]\<rparr>"

definition frame_b :: dataframe where
  "frame_b =
     \<lparr>nrows = 1,
      cols = [(''fecha'', [Str ''2025-09-02'']),
              (''turno'', [Str ''A'']),
              (''maquina'', [Str ''ATM-2'']),
              (''produccion_unidades'', [Num 80]),
              (''notas'', [Str ''sin operario''])]\<rparr>"

definition frame_h :: dataframe where
  "frame_h =
     \<lparr>nrows = 0,
      cols = [(''fecha'', []), (''turno'', []), (''maquina'', []),
              (''produccion_unidades'', []), (''operario'', [])]\<rparr>"

definition frame_c :: dataframe where
  "frame_c =
     \<lparr>nrows = 2,
      cols = [(''fecha'', [Str ''2025-09-02'', Str ''2025-09-01'']),
              (''turno'', [Str ''C'', Str ''A'']),
              (''maquina'', [Str ''ATM-3'', Str ''ATM-1'']),
              (''produccion_unidades'', [Num 60, Num 75]),
              (''operario'', [Str ''Eva'', Str ''Ana''])]\<rparr>"

definition frame_e :: dataframe where
  "frame_e = \<lparr>nrows = 0, cols = [(''fecha'', []), (''turno'', [])]\<rparr>"

fun sample_date :: "cell \<Rightarrow> int option" where
  "sample_date (Str s) =
     (if s = ''2025-09-01'' then Some 20250901
      else if s = ''2025-09-02'' then Some 20250902 else None)"
| "sample_date (Timestamp t) = Some t"
| "sample_date c = None"

definition sample_read :: "string \<Rightarrow> exn + dataframe" where
  "sample_read p =
     (if p = ''data/input/a.csv'' then Inr frame_a
      else if p = ''data/input/b.csv'' then Inr frame_b
      else if p = ''data/cabecera/h.csv'' then Inr frame_h
      else if p = ''data/vacios/z.csv'' then Inl EmptyDataError
      else if p = ''data/dos/a.csv'' then Inr frame_a
      else if p = ''data/dos/b.csv'' then Inr frame_b
      else if p = ''data/dos/c.csv'' then Inr frame_c
      else Inl FileNotFoundError)"

definition sample_listdir :: "string \<Rightarrow> exn + string list" where
  "sample_listdir d =
     (if d = ''data/input'' then Inr [''a.csv'', ''notas.txt'', ''b.csv'']
      else if d = ''data/vacios'' then Inr [''z.csv'']
      else if d = ''data/cabecera'' then Inr [''h.csv'']
      else if d = ''data/otros'' then Inr [''notas.txt'']
      else if d = ''data/dos'' then Inr [''a.csv'', ''b.csv'', ''c.csv'']
      else if d = ''data/privado'' then Inl PermissionError
      else Inl FileNotFoundError)"

definition sample_env :: env where
  "sample_env =
     \<lparr>listdir = sample_listdir, pd_read_csv = sample_read,
      to_datetime = map sample_date, now = (\<lambda>k. 1000 + int k)\<rparr>"

section \<open>Frames: columns, rows and concatenation\<close>

lemma map_of_tabulate:
  "map_of (map (\<lambda>c. (c, f c)) xs) k = (if k \<in> set xs then Some (f k) else None)"
  by (induction xs) auto

lemma set_unique [simp]: "set (unique xs) = set xs"
  by (simp add: unique_def)

lemma filter_unique: "filter P (unique xs) = unique (filter P xs)"
  by (simp add: unique_def rev_filter remdups_filter)

lemma columns_update:
  "fst ` set (AList.update k v al) = insert k (fst ` set al)"
  by (simp add: dom_update)

lemma filter_update_same:
  "filter (\<lambda>p. fst p \<noteq> k) (AList.update k v al) = filter (\<lambda>p. fst p \<noteq> k) al"
  by (induction al) auto

lemma nrows_set_col [simp]: "nrows (set_col n v df) = nrows df"
  by (simp add: set_col_def)

lemma columns_set_col [simp]: "set (columns (set_col n v df)) = insert n (set (columns df))"
  by (simp add: set_col_def columns_def columns_update)

lemma drop_col_set_col [simp]: "drop_col n (set_col n v df) = drop_col n df"
  by (simp add: drop_col_def set_col_def filter_update_same)

lemma nrows_drop_col [simp]: "nrows (drop_col n df) = nrows df"
  by (simp add: drop_col_def)

lemma cols_drop_col: "cols (drop_col n df) = filter (\<lambda>p. fst p \<noteq> n) (cols df)"
  by (simp add: drop_col_def)

lemma columns_drop_col: "columns (drop_col n df) = filter (\<lambda>c. c \<noteq> n) (columns df)"
  by (simp add: drop_col_def columns_def filter_map comp_def)

lemma map_of_filter_key:
  "k \<noteq> n \<Longrightarrow> map_of (filter (\<lambda>p. fst p \<noteq> n) al) k = map_of al k"
  by (induction al) auto

lemma column_or_nan_drop_col:
  "c \<noteq> n \<Longrightarrow> column_or_nan c (drop_col n d) = column_or_nan c d"
  by (simp add: column_or_nan_def drop_col_def map_of_filter_key split: option.split)

lemma drop_col_concat_frames:
  "drop_col n (concat_frames dfs) = concat_frames (map (drop_col n) dfs)"
proof -
  have cs: "concat (map columns (map (drop_col n) dfs))
              = filter (\<lambda>c. c \<noteq> n) (concat (map columns dfs))"
    by (simp add: filter_concat comp_def columns_drop_col)
  have "filter (\<lambda>p. fst p \<noteq> n)
          (map (\<lambda>c. (c, concat (map (column_or_nan c) dfs))) (unique (concat (map columns dfs))))
        = map (\<lambda>c. (c, concat (map (column_or_nan c) dfs)))
            (unique (filter (\<lambda>c. c \<noteq> n) (concat (map columns dfs))))"
    by (simp add: filter_map comp_def filter_unique)
  also have "\<dots> = map (\<lambda>c. (c, concat (map (column_or_nan c) (map (drop_col n) dfs))))
            (unique (filter (\<lambda>c. c \<noteq> n) (concat (map columns dfs))))"
    by (rule map_cong) (auto simp: comp_def column_or_nan_drop_col)
  also have "\<dots> = map (\<lambda>c. (c, concat (map (column_or_nan c) (map (drop_col n) dfs))))
            (unique (concat (map columns (map (drop_col n) dfs))))"
    by (simp only: cs)
  finally have "cols (drop_col n (concat_frames dfs)) = cols (concat_frames (map (drop_col n) dfs))"
    by (simp only: cols_drop_col concat_frames_def dataframe.select_convs)
  moreover have "nrows (drop_col n (concat_frames dfs)) = nrows (concat_frames (map (drop_col n) dfs))"
    by (simp add: concat_frames_def comp_def)
  ultimately show ?thesis
    by (intro dataframe.equality) simp_all
qed

lemma nrows_concat_frames [simp]: "nrows (concat_frames dfs) = sum_list (map nrows dfs)"
  by (simp add: concat_frames_def)

lemma columns_concat_frames:
  "set (columns (concat_frames dfs)) = (\<Union>d\<in>set dfs. set (columns d))"
  by (simp add: concat_frames_def columns_def comp_def)

lemma getcol_concat_frames:
  "getcol c (concat_frames dfs) =
     (if c \<in> (\<Union>d\<in>set dfs. set (columns d)) then Inr (concat (map (column_or_nan c) dfs))
      else Inl (KeyError c))"
  by (simp add: getcol_def concat_frames_def map_of_tabulate)

lemma stamped_concat_frames:
  assumes "dfs \<noteq> []" and "\<forall>d\<in>set dfs. stamped d"
  shows "stamped (concat_frames dfs)"
proof -
  from assms obtain d ds where dfs: "dfs = d # ds" by (cases dfs) auto
  with assms have d: "stamped d" by simp
  have "0 < nrows (concat_frames dfs)" using d by (simp add: dfs stamped_def)
  moreover have "set (columns d) \<subseteq> set (columns (concat_frames dfs))"
    by (auto simp: columns_concat_frames dfs)
  ultimately show ?thesis using d unfolding stamped_def by blast
qed

lemma combine_stamped:
  assumes "dfs \<noteq> []" and "\<forall>d\<in>set dfs. stamped d"
  shows "snd (combine dfs) = Inr (Some (concat_frames dfs))"
proof -
  from assms obtain d where d: "d \<in> set dfs" "stamped d" by (cases dfs) auto
  then have "''fecha'' \<in> set (columns d)" "''maquina'' \<in> set (columns d)" "''turno'' \<in> set (columns d)"
    by (auto simp: stamped_def required_colums_def)
  with d(1) have "''fecha'' \<in> (\<Union>d\<in>set dfs. set (columns d))"
    "''maquina'' \<in> (\<Union>d\<in>set dfs. set (columns d))"
    "''turno'' \<in> (\<Union>d\<in>set dfs. set (columns d))"
    by blast+
  then show ?thesis using assms(1)
    by (simp add: combine_def pd_concat_def getcol_concat_frames Let_def del: UN_iff)
qed

section \<open>Parser, validator and loop\<close>

lemma convert_fecha_now [simp]: "convert_fecha (e\<lparr>now := c\<rparr>) df = convert_fecha e df"
  by (simp add: convert_fecha_def split: option.split)

lemma read_csv_file_now [simp]: "read_csv_file (e\<lparr>now := c\<rparr>) p = read_csv_file e p"
  by (simp add: read_csv_file_def split: sum.split)

lemma parsed_now [simp]: "parsed (e\<lparr>now := c\<rparr>) folder f = parsed e folder f"
  by (simp add: parsed_def)

lemma nrows_convert_fecha [simp]: "nrows (snd (convert_fecha e df)) = nrows df"
  by (simp add: convert_fecha_def Let_def split: option.split)

lemma columns_convert_fecha [simp]:
  "set (columns (snd (convert_fecha e df))) = set (columns df)"
proof (cases "map_of (cols df) ''fecha''")
  case None
  then show ?thesis by (simp add: convert_fecha_def)
next
  case (Some old)
  then have "''fecha'' \<in> fst ` set (cols df)"
    by (metis domI dom_map_of_conv_image_fst)
  with Some show ?thesis
    by (auto simp: convert_fecha_def Let_def columns_def columns_update)
qed

lemma read_csv_file_raises:
  "pd_read_csv e p = Inl x \<Longrightarrow> read_csv_file e p = (LogReading p # read_handler p x, None)"
  by (simp add: read_csv_file_def)

lemma read_csv_file_returns:
  "pd_read_csv e p = Inr df \<Longrightarrow>
   read_csv_file e p =
     (LogReading p # fst (convert_fecha e df) @
        [LogReadOk, LogRows (nrows df), LogCols (length (columns (snd (convert_fecha e df))))],
      Some (snd (convert_fecha e df)))"
  by (simp add: read_csv_file_def case_prod_beta)

lemma missing_colums_empty:
  "missing_colums df = [] \<longleftrightarrow> set required_colums \<subseteq> set (columns df)"
  by (auto simp: missing_colums_def filter_empty_conv)

lemma validate_data_decision:
  "snd (validate_data (Some df)) \<longleftrightarrow> 0 < nrows df \<and> set required_colums \<subseteq> set (columns df)"
proof (cases "cols df = []")
  case True
  then show ?thesis
    by (simp add: validate_data_def df_empty_def columns_def required_colums_def)
next
  case False
  then show ?thesis
    by (simp add: validate_data_def df_empty_def missing_colums_empty)
qed

lemma processed_process_file [simp]:
  "processed_files (process_file e folder f st) = processed_files st @ [f]"
  by (simp add: process_file_def Let_def split: prod.split option.split)

lemma failed_process_file:
  "failed_files (process_file e folder f st) =
     failed_files st @ (if accepted e folder f then [] else [f])"
  by (simp add: process_file_def accepted_def parsed_def Let_def split: prod.split option.split)

lemma valid_process_file:
  "valid_dataframes (process_file e folder f st) =
     valid_dataframes st @
       (case parsed e folder f of
          None \<Rightarrow> []
        | Some df \<Rightarrow>
            if snd (validate_data (Some df))
            then [set_col ''fecha_procesamiento'' (Timestamp (now e (clock_calls st)))
                    (set_col ''archivo_origen'' (Str f) df)]
            else [])"
  by (simp add: process_file_def parsed_def Let_def split: prod.split option.split)

lemma clock_process_file:
  "clock_calls (process_file e folder f st) =
     clock_calls st + (if accepted e folder f then 1 else 0)"
  by (simp add: process_file_def accepted_def parsed_def Let_def split: prod.split option.split)

lemma processed_loop:
  "processed_files (process_loop e folder fs st) = processed_files st @ fs"
  by (induction fs arbitrary: st) simp_all

lemma failed_loop:
  "failed_files (process_loop e folder fs st) =
     failed_files st @ filter (\<lambda>f. \<not> accepted e folder f) fs"
  by (induction fs arbitrary: st) (simp_all add: failed_process_file)

lemma valid_rows_process_file:
  "map nrows (valid_dataframes (process_file e folder f st)) =
     map nrows (valid_dataframes st) @ map (parsed_rows e folder) (filter (accepted e folder) [f])"
  by (simp add: valid_process_file accepted_def parsed_rows_def split: option.split)

lemma valid_rows_loop:
  "map nrows (valid_dataframes (process_loop e folder fs st)) =
     map nrows (valid_dataframes st) @ map (parsed_rows e folder) (filter (accepted e folder) fs)"
  by (induction fs arbitrary: st) (simp_all add: valid_rows_process_file)

lemma origen_stamped_frame:
  "0 < nrows df \<Longrightarrow>
   origen (set_col ''fecha_procesamiento'' t (set_col ''archivo_origen'' (Str f) df)) = Some f"
  by (cases "nrows df") (simp_all add: origen_def set_col_def update_conv')

lemma valid_origen_process_file:
  "map origen (valid_dataframes (process_file e folder f st)) =
     map origen (valid_dataframes st) @ map Some (filter (accepted e folder) [f])"
  by (simp add: valid_process_file accepted_def validate_data_decision origen_stamped_frame
           split: option.split)

lemma valid_origen_loop:
  "map origen (valid_dataframes (process_loop e folder fs st)) =
     map origen (valid_dataframes st) @ map Some (filter (accepted e folder) fs)"
  by (induction fs arbitrary: st) (simp_all add: valid_origen_process_file)

lemma stamped_process_file:
  "\<forall>d\<in>set (valid_dataframes st). stamped d \<Longrightarrow>
   \<forall>d\<in>set (valid_dataframes (process_file e folder f st)). stamped d"
  by (auto simp: valid_process_file validate_data_decision stamped_def split: option.split)

lemma stamped_loop:
  "\<forall>d\<in>set (valid_dataframes st). stamped d \<Longrightarrow>
   \<forall>d\<in>set (valid_dataframes (process_loop e folder fs st)). stamped d"
proof (induction fs arbitrary: st)
  case Nil
  then show ?case by simp
next
  case (Cons f fs)
  from Cons.prems have "\<forall>d\<in>set (valid_dataframes (process_file e folder f st)). stamped d"
    by (rule stamped_process_file)
  then show ?case by (simp add: Cons.IH)
qed

lemma valid_loop_now:
  "map (drop_col ''fecha_procesamiento'') (valid_dataframes st') =
   map (drop_col ''fecha_procesamiento'') (valid_dataframes st) \<Longrightarrow>
   map (drop_col ''fecha_procesamiento'')
     (valid_dataframes (process_loop (e\<lparr>now := c\<rparr>) folder fs st')) =
   map (drop_col ''fecha_procesamiento'') (valid_dataframes (process_loop e folder fs st))"
proof (induction fs arbitrary: st st')
  case Nil
  then show ?case by simp
next
  case (Cons f fs)
  have "map (drop_col ''fecha_procesamiento'')
          (valid_dataframes (process_file (e\<lparr>now := c\<rparr>) folder f st')) =
        map (drop_col ''fecha_procesamiento'') (valid_dataframes (process_file e folder f st))"
    using Cons.prems by (simp add: valid_process_file split: option.split)
  then show ?case by (simp add: Cons.IH)
qed

lemma stamped_run_loop: "\<forall>d\<in>set (valid_dataframes (run_loop e folder all_files)). stamped d"
  unfolding run_loop_def by (rule stamped_loop) simp

lemma process_all_files_listed:
  assumes "listdir e folder = Inr all_files"
  shows "snd (process_all_files e folder) =
           (if csv_files_of all_files = [] \<or> valid_dataframes (run_loop e folder all_files) = []
            then Inr None
            else Inr (Some (concat_frames (valid_dataframes (run_loop e folder all_files)))))"
  using assms combine_stamped [OF _ stamped_run_loop, of e folder all_files]
  by (simp add: process_all_files_def Let_def case_prod_beta)

lemma process_all_files_raises:
  assumes "listdir e folder = Inl x"
  shows "snd (process_all_files e folder) =
           (if x = FileNotFoundError \<or> x = PermissionError then Inr None else Inl x)"
  using assms by (cases x) (simp_all add: process_all_files_def)


lemma valid_run_loop_origen:
  "map origen (valid_dataframes (run_loop e folder all_files)) =
     map Some (filter (accepted e folder) (csv_files_of all_files))"
  by (simp add: run_loop_def valid_origen_loop)

lemma valid_run_loop_empty:
  "valid_dataframes (run_loop e folder all_files) = [] \<longleftrightarrow>
     filter (accepted e folder) (csv_files_of all_files) = []"
  using valid_run_loop_origen [of e folder all_files]
  by (metis map_is_Nil_conv)

lemma printed_summary:
  assumes "listdir e folder = Inr all_files" and "csv_files_of all_files \<noteq> []"
  shows "set (summary_output (run_loop e folder all_files)) \<subseteq> set (fst (process_all_files e folder))"
  using assms by (auto simp: process_all_files_def Let_def case_prod_beta)

lemma getcol_present: "c \<in> set (columns df) \<Longrightarrow> \<exists>vs. getcol c df = Inr vs"
proof -
  assume "c \<in> set (columns df)"
  then have "c \<in> fst ` set (cols df)" by (simp add: columns_def)
  then obtain vs where "map_of (cols df) c = Some vs"
    by (metis domD dom_map_of_conv_image_fst)
  then show ?thesis by (simp add: getcol_def)
qed



lemma failures_convert_fecha: "failures (fst (convert_fecha e df)) = []"
  by (simp add: convert_fecha_def failures_def Let_def map_filter_simps split: option.split)

lemma failures_append: "failures (xs @ ys) = failures xs @ failures ys"
  by (simp add: failures_def map_filter_def)

lemma failures_Cons: "failures (x # xs) = (case failure_of x of None \<Rightarrow> [] | Some k \<Rightarrow> [k]) @ failures xs"
  by (simp add: failures_def map_filter_simps split: option.split)

lemma failures_Nil: "failures [] = []"
  by (simp add: failures_def map_filter_simps)

lemma failures_read_handler: "failures (read_handler p x) = [failure_kind x]"
  by (cases x) (simp_all add: failures_Cons failures_Nil)

lemma printed_process_file:
  "printed (process_file e folder f st) =
     printed st @ LogProcessing f # fst (read_csv_file e (path_join folder f)) @
       (case parsed e folder f of None \<Rightarrow> [] | Some df \<Rightarrow> fst (validate_data (Some df))) @
       [if accepted e folder f then LogFileOk f else LogFileFailed f]"
  by (simp add: process_file_def accepted_def parsed_def Let_def split: prod.split option.split)

lemma empty_lines_convert_fecha: "filter empty_input_line (fst (convert_fecha e df)) = []"
  by (simp add: convert_fecha_def Let_def split: option.split)

lemma valid_run_loop_rows:
  "map nrows (valid_dataframes (run_loop e folder all_files)) =
     map (parsed_rows e folder) (filter (accepted e folder) (csv_files_of all_files))"
  by (simp add: run_loop_def valid_rows_loop)

section \<open>Properties of the pipeline\<close>

text \<open>
  Claim C3. Whatever \<^verbatim>\<open>pd.read_csv\<close> does on the path, \<^verbatim>\<open>read_csv_file\<close> returns: a table
  when the reader returned one, with no failure line printed, and otherwise \<^verbatim>\<open>None\<close>
  after printing exactly one failure line, of the kind of the \<^verbatim>\<open>except\<close> clause that
  caught the exception (file not found, empty input, malformed input, or unexpected
  failure with the class name and message). No exception leaves the call.
\<close>

theorem read_csv_file_contained:
  "case pd_read_csv e p of
     Inr d \<Rightarrow> (\<exists>df. snd (read_csv_file e p) = Some df) \<and> failures (fst (read_csv_file e p)) = []
   | Inl x \<Rightarrow> read_csv_file e p = (LogReading p # read_handler p x, None) \<and>
             failures (fst (read_csv_file e p)) = [failure_kind x]"
proof (cases "pd_read_csv e p")
  case (Inl x)
  then show ?thesis
    by (simp add: read_csv_file_raises failures_Cons failures_read_handler)
next
  case (Inr d)
  then show ?thesis
    by (simp add: read_csv_file_returns failures_Cons failures_append failures_convert_fecha
          failures_Nil)
qed

text \<open>
  Claim C9. At the end of the loop every discovered csv file has been processed once, the
  failed list holds exactly the files that were not accepted, the collected frames are
  exactly those of the accepted files, in listing order, and the number of processed files
  is the number of collected frames plus the number of failed files.
\<close>

theorem files_partitioned:
  "processed_files (run_loop e folder all_files) = csv_files_of all_files \<and>
   failed_files (run_loop e folder all_files) =
     filter (\<lambda>f. \<not> accepted e folder f) (csv_files_of all_files) \<and>
   map origen (valid_dataframes (run_loop e folder all_files)) =
     map Some (filter (accepted e folder) (csv_files_of all_files)) \<and>
   length (processed_files (run_loop e folder all_files)) =
     length (valid_dataframes (run_loop e folder all_files)) +
     length (failed_files (run_loop e folder all_files))"
proof -
  let ?st = "run_loop e folder all_files"
  have p: "processed_files ?st = csv_files_of all_files"
    by (simp add: run_loop_def processed_loop)
  have f: "failed_files ?st = filter (\<lambda>f. \<not> accepted e folder f) (csv_files_of all_files)"
    by (simp add: run_loop_def failed_loop)
  have "length (valid_dataframes ?st) = length (map origen (valid_dataframes ?st))"
    by simp
  also have "\<dots> = length (filter (accepted e folder) (csv_files_of all_files))"
    by (simp only: valid_run_loop_origen length_map)
  finally have "length (valid_dataframes ?st) + length (failed_files ?st)
                  = length (csv_files_of all_files)"
    by (simp add: f sum_length_filter_compl)
  with p f show ?thesis by (simp add: valid_run_loop_origen)
qed

text \<open>
  Claim C1. When the folder can be listed, \<^verbatim>\<open>process_all_files\<close> returns a data set
  exactly when some csv file passes parser and validator, and the data set is the
  concatenation of the frames of those files, one frame per accepted file in listing order:
  its row count is the sum of the row counts of their tables. The loop visits every csv
  file; a file that fails contributes no frame, is in the failed list, and the failed list
  is printed in the summary.
\<close>

theorem process_all_files_row_count:
  assumes "listdir e folder = Inr all_files"
  shows "snd (process_all_files e folder) =
           (if filter (accepted e folder) (csv_files_of all_files) = [] then Inr None
            else Inr (Some (concat_frames (valid_dataframes (run_loop e folder all_files))))) \<and>
         nrows (concat_frames (valid_dataframes (run_loop e folder all_files))) =
           sum_list (map (parsed_rows e folder)
             (filter (accepted e folder) (csv_files_of all_files))) \<and>
         map origen (valid_dataframes (run_loop e folder all_files)) =
           map Some (filter (accepted e folder) (csv_files_of all_files)) \<and>
         (\<forall>df. snd (process_all_files e folder) = Inr (Some df) \<longrightarrow>
            nrows df = sum_list (map (parsed_rows e folder)
                          (filter (accepted e folder) (csv_files_of all_files)))) \<and>
         processed_files (run_loop e folder all_files) = csv_files_of all_files \<and>
         failed_files (run_loop e folder all_files) =
           filter (\<lambda>f. \<not> accepted e folder f) (csv_files_of all_files) \<and>
         (\<forall>f\<in>set (csv_files_of all_files). \<not> accepted e folder f \<longrightarrow>
            f \<in> set (failed_files (run_loop e folder all_files)) \<and>
            LogFailedList (failed_files (run_loop e folder all_files))
              \<in> set (fst (process_all_files e folder)))"
proof -
  let ?st = "run_loop e folder all_files"
  let ?ok = "filter (accepted e folder) (csv_files_of all_files)"
  have res: "snd (process_all_files e folder) =
           (if ?ok = [] then Inr None else Inr (Some (concat_frames (valid_dataframes ?st))))"
  proof (cases "?ok = []")
    case True
    then show ?thesis
      by (simp add: process_all_files_listed [OF assms] valid_run_loop_empty)
  next
    case False
    then have "csv_files_of all_files \<noteq> []" by auto
    with False show ?thesis
      by (simp add: process_all_files_listed [OF assms] valid_run_loop_empty)
  qed
  have rows: "nrows (concat_frames (valid_dataframes ?st)) = sum_list (map (parsed_rows e folder) ?ok)"
    by (simp add: valid_run_loop_rows)
  have p: "processed_files ?st = csv_files_of all_files"
    by (simp add: run_loop_def processed_loop)
  have f: "failed_files ?st = filter (\<lambda>f. \<not> accepted e folder f) (csv_files_of all_files)"
    by (simp add: run_loop_def failed_loop)
  have a: "nrows df = sum_list (map (parsed_rows e folder) ?ok)"
    if "snd (process_all_files e folder) = Inr (Some df)" for df
  proof -
    from that have "df = concat_frames (valid_dataframes ?st)"
      by (simp add: res split: if_splits)
    then show ?thesis by (simp only: rows)
  qed
  have b: "f' \<in> set (failed_files ?st) \<and>
           LogFailedList (failed_files ?st) \<in> set (fst (process_all_files e folder))"
    if "f' \<in> set (csv_files_of all_files)" and "\<not> accepted e folder f'" for f'
  proof -
    from that have m: "f' \<in> set (failed_files ?st)" by (simp add: f)
    then have "failed_files ?st \<noteq> []" by auto
    then have "LogFailedList (failed_files ?st) \<in> set (summary_output ?st)"
      by (simp add: summary_output_def)
    moreover from that(1) have "csv_files_of all_files \<noteq> []" by auto
    ultimately show ?thesis using m printed_summary [OF assms] by blast
  qed
  from a have c1: "\<forall>df. snd (process_all_files e folder) = Inr (Some df) \<longrightarrow>
            nrows df = sum_list (map (parsed_rows e folder) ?ok)"
    by blast
  from b have c2: "\<forall>f\<in>set (csv_files_of all_files). \<not> accepted e folder f \<longrightarrow>
            f \<in> set (failed_files ?st) \<and>
            LogFailedList (failed_files ?st) \<in> set (fst (process_all_files e folder))"
    by blast
  show ?thesis
    apply (intro conjI)
          apply (rule res)
         apply (rule rows)
        apply (rule valid_run_loop_origen)
       apply (rule c1)
      apply (rule p)
     apply (rule f)
    apply (rule c2)
    done
qed

text \<open>
  Claim C10. A data set returned by \<^verbatim>\<open>process_all_files\<close> has at least one row and has
  the five required columns and the two provenance columns, so the columns read by the
  summary statistics are there; the only exceptions that leave the call are those raised
  by the directory listing.
\<close>

theorem result_rows_and_columns:
  "(\<forall>df. snd (process_all_files e folder) = Inr (Some df) \<longrightarrow>
      0 < nrows df \<and>
      set required_colums \<union> {''archivo_origen'', ''fecha_procesamiento''} \<subseteq> set (columns df) \<and>
      (\<exists>fechas maquinas turnos.
         getcol ''fecha'' df = Inr fechas \<and> getcol ''maquina'' df = Inr maquinas \<and>
         getcol ''turno'' df = Inr turnos)) \<and>
   (\<forall>x. snd (process_all_files e folder) = Inl x \<longrightarrow> listdir e folder = Inl x)"
proof (cases "listdir e folder")
  case (Inl x)
  then show ?thesis
    by (simp add: process_all_files_raises split: if_splits)
next
  case (Inr all_files)
  let ?st = "run_loop e folder all_files"
  have "0 < nrows df \<and>
      set required_colums \<union> {''archivo_origen'', ''fecha_procesamiento''} \<subseteq> set (columns df) \<and>
      (\<exists>fechas maquinas turnos.
         getcol ''fecha'' df = Inr fechas \<and> getcol ''maquina'' df = Inr maquinas \<and>
         getcol ''turno'' df = Inr turnos)"
    if "snd (process_all_files e folder) = Inr (Some df)" for df
  proof -
    from that have df: "df = concat_frames (valid_dataframes ?st)" and ne: "valid_dataframes ?st \<noteq> []"
      by (simp_all add: process_all_files_listed [OF Inr] split: if_splits)
    have st: "stamped df"
      unfolding df using ne stamped_run_loop by (rule stamped_concat_frames)
    then have "''fecha'' \<in> set (columns df)" "''maquina'' \<in> set (columns df)"
      "''turno'' \<in> set (columns df)"
      by (auto simp: stamped_def required_colums_def)
    then have "\<exists>fechas maquinas turnos.
         getcol ''fecha'' df = Inr fechas \<and> getcol ''maquina'' df = Inr maquinas \<and>
         getcol ''turno'' df = Inr turnos"
      using getcol_present by blast
    with st show ?thesis by (simp add: stamped_def)
  qed
  moreover have "\<forall>x. snd (process_all_files e folder) \<noteq> Inl x"
    by (simp add: process_all_files_listed [OF Inr])
  ultimately show ?thesis by blast
qed

text \<open>
  Claim C6. When the folder can be listed and it holds no csv file, or no csv file passes
  parser and validator, \<^verbatim>\<open>process_all_files\<close> returns \<^verbatim>\<open>None\<close> and raises nothing.
\<close>

theorem no_data_result:
  assumes "listdir e folder = Inr all_files"
    and "csv_files_of all_files = [] \<or> (\<forall>f\<in>set (csv_files_of all_files). \<not> accepted e folder f)"
  shows "snd (process_all_files e folder) = Inr None"
proof -
  from assms(2) have "filter (accepted e folder) (csv_files_of all_files) = []"
    by (auto simp: filter_empty_conv)
  then show ?thesis
    by (simp add: process_all_files_listed [OF assms(1)] valid_run_loop_empty)
qed

text \<open>
  Claim C7. When the folder does not exist, the run prints the directory-not-found line
  and returns \<^verbatim>\<open>None\<close>, with no file read and no summary; when access is denied, it
  prints the permission line and returns \<^verbatim>\<open>None\<close> likewise. When the folder can be
  listed the run returns normally, and if there are csv files it processes all of them and
  prints the summary, whatever happens with each file.
\<close>

theorem directory_failures_abort:
  "(listdir e folder = Inl FileNotFoundError \<longrightarrow>
      process_all_files e folder = ([LogSearching folder, LogDirNotFound folder], Inr None)) \<and>
   (listdir e folder = Inl PermissionError \<longrightarrow>
      process_all_files e folder = ([LogSearching folder, LogNoPermission folder], Inr None)) \<and>
   (\<forall>all_files. listdir e folder = Inr all_files \<longrightarrow>
      (\<exists>r. snd (process_all_files e folder) = Inr r) \<and>
      (csv_files_of all_files \<noteq> [] \<longrightarrow>
         processed_files (run_loop e folder all_files) = csv_files_of all_files \<and>
         set (summary_output (run_loop e folder all_files))
           \<subseteq> set (fst (process_all_files e folder))))"
proof (intro conjI allI impI)
  assume "listdir e folder = Inl FileNotFoundError"
  then show "process_all_files e folder = ([LogSearching folder, LogDirNotFound folder], Inr None)"
    by (simp add: process_all_files_def)
next
  assume "listdir e folder = Inl PermissionError"
  then show "process_all_files e folder = ([LogSearching folder, LogNoPermission folder], Inr None)"
    by (simp add: process_all_files_def)
next
  fix all_files assume "listdir e folder = Inr all_files"
  then show "\<exists>r. snd (process_all_files e folder) = Inr r"
    by (simp add: process_all_files_listed)
next
  fix all_files assume "listdir e folder = Inr all_files" "csv_files_of all_files \<noteq> []"
  show "processed_files (run_loop e folder all_files) = csv_files_of all_files"
    by (simp add: run_loop_def processed_loop)
next
  fix all_files assume "listdir e folder = Inr all_files" "csv_files_of all_files \<noteq> []"
  then show "set (summary_output (run_loop e folder all_files))
           \<subseteq> set (fst (process_all_files e folder))"
    by (rule printed_summary)
qed

text \<open>
  Claim C8. Two runs over the same folder contents that differ only in the clock return
  the same result once the \<^verbatim>\<open>fecha_procesamiento\<close> column is left out.
\<close>

theorem rerun_same_rows:
  "without_timestamp (snd (process_all_files (e\<lparr>now := c\<rparr>) folder)) =
   without_timestamp (snd (process_all_files e folder))"
proof (cases "listdir e folder")
  case (Inl x)
  then have "listdir (e\<lparr>now := c\<rparr>) folder = Inl x" by simp
  with Inl show ?thesis by (simp add: process_all_files_raises)
next
  case (Inr all_files)
  then have l: "listdir (e\<lparr>now := c\<rparr>) folder = Inr all_files" by simp
  let ?d = "drop_col ''fecha_procesamiento''"
  have m: "map ?d (valid_dataframes (run_loop (e\<lparr>now := c\<rparr>) folder all_files)) =
           map ?d (valid_dataframes (run_loop e folder all_files))"
    unfolding run_loop_def by (rule valid_loop_now) simp
  then have n: "valid_dataframes (run_loop (e\<lparr>now := c\<rparr>) folder all_files) = [] \<longleftrightarrow>
                valid_dataframes (run_loop e folder all_files) = []"
    by (metis map_is_Nil_conv)
  show ?thesis
    by (simp add: process_all_files_listed [OF Inr] process_all_files_listed [OF l]
          without_timestamp_def drop_col_concat_frames m n)
qed

text \<open>
  Claim C2, as amended. A table that lacks a required column is rejected. The missing
  columns are the required columns that the table does not have (the required set minus
  the present set), in the order of the schema. A table that is not empty gets them
  reported together with the columns it has; an empty table is rejected by the empty-table
  rule, which comes first, and gets no list of missing columns reported.
\<close>

theorem missing_columns_rejected:
  assumes "\<not> set required_colums \<subseteq> set (columns df)"
  shows "\<not> snd (validate_data (Some df)) \<and>
         missing_colums df =
           filter (\<lambda>c. c \<notin> set (columns df))
             [''fecha'', ''turno'', ''maquina'', ''produccion_unidades'', ''operario''] \<and>
         set (missing_colums df) = set required_colums - set (columns df) \<and>
         validate_data (Some df) =
           (if df_empty df then ([LogValidating, LogValEmpty], False)
            else ([LogValidating, LogValMissing (missing_colums df), LogVisibleCols (columns df)],
                  False))"
proof -
  from assms have m: "missing_colums df \<noteq> []" by (simp add: missing_colums_empty)
  have o: "missing_colums df =
           filter (\<lambda>c. c \<notin> set (columns df))
             [''fecha'', ''turno'', ''maquina'', ''produccion_unidades'', ''operario'']"
    by (simp only: missing_colums_def required_colums_def)
  have d: "set (missing_colums df) = set required_colums - set (columns df)"
    by (auto simp: missing_colums_def)
  have v: "validate_data (Some df) =
           (if df_empty df then ([LogValidating, LogValEmpty], False)
            else ([LogValidating, LogValMissing (missing_colums df), LogVisibleCols (columns df)],
                  False))"
    using m by (simp add: validate_data_def)
  then have "\<not> snd (validate_data (Some df))" by simp
  with o d v show ?thesis by blast
qed


text \<open>
  Claim C4. A file of zero bytes (the reader raises \<^verbatim>\<open>EmptyDataError\<close>) and a file with a
  header only (the reader returns a table with no rows) are both rejected as empty: the
  round of the loop prints exactly one empty-input line for the file, the parser's for the
  first and the validator's for the second, puts the file on the failed list and collects
  no frame; no frame of the run names the file as its source, so none of it is merged.
\<close>

theorem empty_files_rejected:
  "(pd_read_csv e (path_join folder f) = Inl EmptyDataError \<longrightarrow>
      printed (process_file e folder f st) =
        printed st @ [LogProcessing f, LogReading (path_join folder f),
                      LogEmptyFile (path_join folder f), LogFileFailed f]) \<and>
   (\<forall>df. pd_read_csv e (path_join folder f) = Inr df \<and> nrows df = 0 \<longrightarrow>
      printed (process_file e folder f st) =
        printed st @ LogProcessing f # LogReading (path_join folder f) #
          fst (convert_fecha e df) @
          [LogReadOk, LogRows 0, LogCols (length (columns (snd (convert_fecha e df)))),
           LogValidating, LogValEmpty, LogFileFailed f]) \<and>
   (pd_read_csv e (path_join folder f) = Inl EmptyDataError \<or>
    (\<exists>df. pd_read_csv e (path_join folder f) = Inr df \<and> nrows df = 0) \<longrightarrow>
      \<not> accepted e folder f \<and>
      length (filter empty_input_line
                (drop (length (printed st)) (printed (process_file e folder f st)))) = 1 \<and>
      valid_dataframes (process_file e folder f st) = valid_dataframes st \<and>
      failed_files (process_file e folder f st) = failed_files st @ [f] \<and>
      Some f \<notin> set (map origen (valid_dataframes (run_loop e folder all_files))) \<and>
      (f \<in> set (csv_files_of all_files) \<longrightarrow>
         f \<in> set (failed_files (run_loop e folder all_files))))"
proof -
  let ?p = "path_join folder f"
  let ?new = "drop (length (printed st)) (printed (process_file e folder f st))"
  have zero: "printed (process_file e folder f st) =
        printed st @ [LogProcessing f, LogReading ?p, LogEmptyFile ?p, LogFileFailed f]"
    and zero_rej: "\<not> accepted e folder f"
    if z: "pd_read_csv e ?p = Inl EmptyDataError"
  proof -
    have r: "read_csv_file e ?p = ([LogReading ?p, LogEmptyFile ?p], None)"
      by (simp add: read_csv_file_raises [OF z])
    then have p: "parsed e folder f = None" by (simp add: parsed_def)
    then show "\<not> accepted e folder f" by (simp add: accepted_def)
    then show "printed (process_file e folder f st) =
        printed st @ [LogProcessing f, LogReading ?p, LogEmptyFile ?p, LogFileFailed f]"
      by (simp add: printed_process_file r p)
  qed
  have hdr: "printed (process_file e folder f st) =
        printed st @ LogProcessing f # LogReading ?p # fst (convert_fecha e df) @
          [LogReadOk, LogRows 0, LogCols (length (columns (snd (convert_fecha e df)))),
           LogValidating, LogValEmpty, LogFileFailed f]"
    and hdr_rej: "\<not> accepted e folder f"
    if h: "pd_read_csv e ?p = Inr df" and n: "nrows df = 0" for df
  proof -
    have p: "parsed e folder f = Some (snd (convert_fecha e df))"
      by (simp add: parsed_def read_csv_file_returns [OF h])
    have v: "validate_data (Some (snd (convert_fecha e df))) = ([LogValidating, LogValEmpty], False)"
      using n by (simp add: validate_data_def df_empty_def)
    from p v show "\<not> accepted e folder f" by (simp add: accepted_def)
    then show "printed (process_file e folder f st) =
        printed st @ LogProcessing f # LogReading ?p # fst (convert_fecha e df) @
          [LogReadOk, LogRows 0, LogCols (length (columns (snd (convert_fecha e df)))),
           LogValidating, LogValEmpty, LogFileFailed f]"
      by (simp add: printed_process_file read_csv_file_returns [OF h] p v n)
  qed
  have both: "\<not> accepted e folder f \<and> length (filter empty_input_line ?new) = 1"
    if "pd_read_csv e ?p = Inl EmptyDataError \<or> (\<exists>df. pd_read_csv e ?p = Inr df \<and> nrows df = 0)"
    using that
  proof
    assume z: "pd_read_csv e ?p = Inl EmptyDataError"
    show ?thesis by (simp add: zero [OF z] zero_rej [OF z])
  next
    assume "\<exists>df. pd_read_csv e ?p = Inr df \<and> nrows df = 0"
    then obtain df where h: "pd_read_csv e ?p = Inr df" and n: "nrows df = 0" by blast
    show ?thesis by (simp add: hdr [OF h n] hdr_rej [OF h n] empty_lines_convert_fecha)
  qed
  have rest: "valid_dataframes (process_file e folder f st) = valid_dataframes st \<and>
      failed_files (process_file e folder f st) = failed_files st @ [f] \<and>
      Some f \<notin> set (map origen (valid_dataframes (run_loop e folder all_files))) \<and>
      (f \<in> set (csv_files_of all_files) \<longrightarrow>
         f \<in> set (failed_files (run_loop e folder all_files)))"
    if a: "\<not> accepted e folder f"
  proof -
    from a have "valid_dataframes (process_file e folder f st) = valid_dataframes st"
      by (auto simp: valid_process_file accepted_def split: option.splits)
    moreover from a have "failed_files (process_file e folder f st) = failed_files st @ [f]"
      by (simp add: failed_process_file)
    moreover from a have "Some f \<notin> set (map origen (valid_dataframes (run_loop e folder all_files)))"
      by (auto simp: valid_run_loop_origen)
    moreover from a have "f \<in> set (csv_files_of all_files) \<longrightarrow>
         f \<in> set (failed_files (run_loop e folder all_files))"
      by (simp add: run_loop_def failed_loop)
    ultimately show ?thesis by blast
  qed
  from zero have g1: "pd_read_csv e ?p = Inl EmptyDataError \<longrightarrow>
      printed (process_file e folder f st) =
        printed st @ [LogProcessing f, LogReading ?p, LogEmptyFile ?p, LogFileFailed f]"
    by (rule impI)
  have g2: "\<forall>df. pd_read_csv e ?p = Inr df \<and> nrows df = 0 \<longrightarrow>
      printed (process_file e folder f st) =
        printed st @ LogProcessing f # LogReading ?p # fst (convert_fecha e df) @
          [LogReadOk, LogRows 0, LogCols (length (columns (snd (convert_fecha e df)))),
           LogValidating, LogValEmpty, LogFileFailed f]"
  proof (intro allI impI)
    fix df assume "pd_read_csv e ?p = Inr df \<and> nrows df = 0"
    then have "pd_read_csv e ?p = Inr df" and "nrows df = 0" by simp_all
    then show "printed (process_file e folder f st) =
        printed st @ LogProcessing f # LogReading ?p # fst (convert_fecha e df) @
          [LogReadOk, LogRows 0, LogCols (length (columns (snd (convert_fecha e df)))),
           LogValidating, LogValEmpty, LogFileFailed f]"
      by (rule hdr)
  qed
  have g3: "pd_read_csv e ?p = Inl EmptyDataError \<or>
    (\<exists>df. pd_read_csv e ?p = Inr df \<and> nrows df = 0) \<longrightarrow>
      \<not> accepted e folder f \<and>
      length (filter empty_input_line ?new) = 1 \<and>
      valid_dataframes (process_file e folder f st) = valid_dataframes st \<and>
      failed_files (process_file e folder f st) = failed_files st @ [f] \<and>
      Some f \<notin> set (map origen (valid_dataframes (run_loop e folder all_files))) \<and>
      (f \<in> set (csv_files_of all_files) \<longrightarrow>
         f \<in> set (failed_files (run_loop e folder all_files)))"
  proof
    assume c: "pd_read_csv e ?p = Inl EmptyDataError \<or>
      (\<exists>df. pd_read_csv e ?p = Inr df \<and> nrows df = 0)"
    from both [OF c] have a: "\<not> accepted e folder f"
      and l: "length (filter empty_input_line ?new) = 1" by simp_all
    from a l rest [OF a] show "\<not> accepted e folder f \<and>
      length (filter empty_input_line ?new) = 1 \<and>
      valid_dataframes (process_file e folder f st) = valid_dataframes st \<and>
      failed_files (process_file e folder f st) = failed_files st @ [f] \<and>
      Some f \<notin> set (map origen (valid_dataframes (run_loop e folder all_files))) \<and>
      (f \<in> set (csv_files_of all_files) \<longrightarrow>
         f \<in> set (failed_files (run_loop e folder all_files)))"
      by simp
  qed
  show ?thesis
    apply (intro conjI)
      apply (rule g1)
     apply (rule g2)
    apply (rule g3)
    done
qed

section \<open>The properties on the sample folders\<close>

text \<open>
  The table of \<^verbatim>\<open>b.csv\<close> lacks \<^verbatim>\<open>operario\<close> and has the extra column \<^verbatim>\<open>notas\<close>: the
  validator reports \<^verbatim>\<open>operario\<close> alone, while the symmetric difference of the required
  and the present columns also holds \<^verbatim>\<open>notas\<close>.
\<close>

theorem missing_list_not_symmetric_difference:
  "\<not> set required_colums \<subseteq> set (columns frame_b) \<and>
   validate_data (Some frame_b) =
     ([LogValidating, LogValMissing [''operario''],
       LogVisibleCols [''fecha'', ''turno'', ''maquina'', ''produccion_unidades'', ''notas'']],
      False) \<and>
   set [''operario''] \<noteq>
     (set required_colums - set (columns frame_b)) \<union> (set (columns frame_b) - set required_colums)"
  by code_simp

text \<open>The parser on the zero-byte file \<^verbatim>\<open>z.csv\<close>.\<close>

theorem read_csv_file_contained_witness:
  "read_csv_file sample_env ''data/vacios/z.csv'' =
     ([LogReading ''data/vacios/z.csv'', LogEmptyFile ''data/vacios/z.csv''], None) \<and>
   failures (fst (read_csv_file sample_env ''data/vacios/z.csv'')) = [EmptyInput]"
proof -
  have h: "pd_read_csv sample_env ''data/vacios/z.csv'' = Inl EmptyDataError" by code_simp
  from read_csv_file_contained [of sample_env "''data/vacios/z.csv''", unfolded h, simplified]
  show ?thesis .
qed

text \<open>The validator on the table of \<^verbatim>\<open>b.csv\<close> and on an empty table with two columns.\<close>

theorem missing_columns_rejected_witness:
  "\<not> set required_colums \<subseteq> set (columns frame_b) \<and>
   \<not> df_empty frame_b \<and>
   missing_colums frame_b = [''operario''] \<and>
   validate_data (Some frame_b) =
     ([LogValidating, LogValMissing [''operario''],
       LogVisibleCols [''fecha'', ''turno'', ''maquina'', ''produccion_unidades'', ''notas'']],
      False) \<and>
   \<not> set required_colums \<subseteq> set (columns frame_e) \<and>
   df_empty frame_e \<and>
   missing_colums frame_e = [''maquina'', ''produccion_unidades'', ''operario''] \<and>
   validate_data (Some frame_e) = ([LogValidating, LogValEmpty], False)"
proof -
  have h: "\<not> set required_colums \<subseteq> set (columns frame_b)" by code_simp
  have n: "\<not> df_empty frame_b" by code_simp
  have c: "columns frame_b = [''fecha'', ''turno'', ''maquina'', ''produccion_unidades'', ''notas'']"
    by code_simp
  have h': "\<not> set required_colums \<subseteq> set (columns frame_e)" by code_simp
  have n': "df_empty frame_e" by code_simp
  have c': "columns frame_e = [''fecha'', ''turno'']" by code_simp
  from missing_columns_rejected [OF h]
  have m: "missing_colums frame_b = [''operario'']" by (simp add: c)
  from missing_columns_rejected [OF h']
  have m': "missing_colums frame_e = [''maquina'', ''produccion_unidades'', ''operario'']"
    by (simp add: c')
  from missing_columns_rejected [OF h] missing_columns_rejected [OF h'] h n h' n' m m' c
  show ?thesis by simp
qed

text \<open>A folder without csv files, and a folder whose only csv file is empty.\<close>

theorem no_data_result_witness:
  "listdir sample_env ''data/otros'' = Inr [''notas.txt''] \<and>
   csv_files_of [''notas.txt''] = [] \<and>
   snd (process_all_files sample_env ''data/otros'') = Inr None \<and>
   listdir sample_env ''data/vacios'' = Inr [''z.csv''] \<and>
   csv_files_of [''z.csv''] = [''z.csv''] \<and>
   \<not> accepted sample_env ''data/vacios'' ''z.csv'' \<and>
   snd (process_all_files sample_env ''data/vacios'') = Inr None"
proof -
  have h1: "listdir sample_env ''data/otros'' = Inr [''notas.txt'']" by code_simp
  have c1: "csv_files_of [''notas.txt''] = []" by code_simp
  have h2: "listdir sample_env ''data/vacios'' = Inr [''z.csv'']" by code_simp
  have c2: "csv_files_of [''z.csv''] = [''z.csv'']" by code_simp
  have a2: "\<not> accepted sample_env ''data/vacios'' ''z.csv''" by code_simp
  have r1: "snd (process_all_files sample_env ''data/otros'') = Inr None"
    using no_data_result [OF h1] c1 by simp
  have r2: "snd (process_all_files sample_env ''data/vacios'') = Inr None"
    using no_data_result [OF h2] c2 a2 by simp
  from h1 c1 h2 c2 a2 r1 r2 show ?thesis by simp
qed

text \<open>A folder that does not exist, a folder without access, and the sample folder.\<close>

theorem directory_failures_abort_witness:
  "listdir sample_env ''nada'' = Inl FileNotFoundError \<and>
   process_all_files sample_env ''nada'' =
     ([LogSearching ''nada'', LogDirNotFound ''nada''], Inr None) \<and>
   listdir sample_env ''data/privado'' = Inl PermissionError \<and>
   process_all_files sample_env ''data/privado'' =
     ([LogSearching ''data/privado'', LogNoPermission ''data/privado''], Inr None) \<and>
   listdir sample_env ''data/input'' = Inr [''a.csv'', ''notas.txt'', ''b.csv''] \<and>
   csv_files_of [''a.csv'', ''notas.txt'', ''b.csv''] = [''a.csv'', ''b.csv''] \<and>
   processed_files (run_loop sample_env ''data/input'' [''a.csv'', ''notas.txt'', ''b.csv''])
     = [''a.csv'', ''b.csv''] \<and>
   LogSummary \<in> set (fst (process_all_files sample_env ''data/input''))"
proof -
  have h1: "listdir sample_env ''nada'' = Inl FileNotFoundError" by code_simp
  have h2: "listdir sample_env ''data/privado'' = Inl PermissionError" by code_simp
  have h3: "listdir sample_env ''data/input'' = Inr [''a.csv'', ''notas.txt'', ''b.csv'']"
    by code_simp
  have c3: "csv_files_of [''a.csv'', ''notas.txt'', ''b.csv''] = [''a.csv'', ''b.csv'']"
    by code_simp
  have s: "LogSummary \<in> set (summary_output st)" for st
    by (simp add: summary_output_def)
  from directory_failures_abort [of sample_env "''nada''"] h1
  have r1: "process_all_files sample_env ''nada'' =
     ([LogSearching ''nada'', LogDirNotFound ''nada''], Inr None)" by simp
  from directory_failures_abort [of sample_env "''data/privado''"] h2
  have r2: "process_all_files sample_env ''data/privado'' =
     ([LogSearching ''data/privado'', LogNoPermission ''data/privado''], Inr None)" by simp
  from directory_failures_abort [of sample_env "''data/input''"] h3 c3
  have r3: "processed_files (run_loop sample_env ''data/input'' [''a.csv'', ''notas.txt'', ''b.csv''])
     = [''a.csv'', ''b.csv''] \<and>
     set (summary_output (run_loop sample_env ''data/input'' [''a.csv'', ''notas.txt'', ''b.csv'']))
        \<subseteq> set (fst (process_all_files sample_env ''data/input''))"
    by simp
  with s have "LogSummary \<in> set (fst (process_all_files sample_env ''data/input''))" by blast
  with h1 h2 h3 c3 r1 r2 r3 show ?thesis by simp
qed

text \<open>The partition of the sample folder: \<^verbatim>\<open>a.csv\<close> collected, \<^verbatim>\<open>b.csv\<close> failed.\<close>

theorem files_partitioned_witness:
  "processed_files (run_loop sample_env ''data/input'' [''a.csv'', ''notas.txt'', ''b.csv''])
     = [''a.csv'', ''b.csv''] \<and>
   failed_files (run_loop sample_env ''data/input'' [''a.csv'', ''notas.txt'', ''b.csv''])
     = [''b.csv''] \<and>
   map origen (valid_dataframes (run_loop sample_env ''data/input'' [''a.csv'', ''notas.txt'', ''b.csv'']))
     = [Some ''a.csv'']"
proof -
  have c: "csv_files_of [''a.csv'', ''notas.txt'', ''b.csv''] = [''a.csv'', ''b.csv'']"
    by code_simp
  have a: "accepted sample_env ''data/input'' ''a.csv''" by code_simp
  have b: "\<not> accepted sample_env ''data/input'' ''b.csv''" by code_simp
  from files_partitioned [of sample_env "''data/input''" "[''a.csv'', ''notas.txt'', ''b.csv'']"]
  show ?thesis by (simp add: c a b)
qed

text \<open>
  Two runs over the sample folder under different clocks: the results differ, and are equal
  without the timestamp column.
\<close>

theorem rerun_same_rows_witness:
  "without_timestamp (snd (process_all_files (sample_env\<lparr>now := \<lambda>k. 2000\<rparr>) ''data/input'')) =
   without_timestamp (snd (process_all_files sample_env ''data/input'')) \<and>
   snd (process_all_files (sample_env\<lparr>now := \<lambda>k. 2000\<rparr>) ''data/input'') \<noteq>
   snd (process_all_files sample_env ''data/input'')"
proof -
  have "snd (process_all_files (sample_env\<lparr>now := \<lambda>k. 2000\<rparr>) ''data/input'') \<noteq>
        snd (process_all_files sample_env ''data/input'')"
    by code_simp
  with rerun_same_rows [where e = sample_env and c = "\<lambda>k. 2000" and folder = "''data/input''"] show ?thesis by simp
qed


text \<open>
  A folder with two valid files and one that fails between them: four rows, two from
  \<^verbatim>\<open>a.csv\<close> and two from \<^verbatim>\<open>c.csv\<close>, and \<^verbatim>\<open>b.csv\<close> reported as failed.
\<close>

theorem process_all_files_row_count_witness:
  "listdir sample_env ''data/dos'' = Inr [''a.csv'', ''b.csv'', ''c.csv''] \<and>
   filter (accepted sample_env ''data/dos'') (csv_files_of [''a.csv'', ''b.csv'', ''c.csv''])
     = [''a.csv'', ''c.csv''] \<and>
   snd (process_all_files sample_env ''data/dos'') =
     Inr (Some (concat_frames
        (valid_dataframes (run_loop sample_env ''data/dos'' [''a.csv'', ''b.csv'', ''c.csv''])))) \<and>
   nrows (concat_frames
        (valid_dataframes (run_loop sample_env ''data/dos'' [''a.csv'', ''b.csv'', ''c.csv''])))
     = 4 \<and>
   map origen (valid_dataframes (run_loop sample_env ''data/dos'' [''a.csv'', ''b.csv'', ''c.csv'']))
     = [Some ''a.csv'', Some ''c.csv''] \<and>
   ''b.csv'' \<in> set (csv_files_of [''a.csv'', ''b.csv'', ''c.csv'']) \<and>
   \<not> accepted sample_env ''data/dos'' ''b.csv'' \<and>
   failed_files (run_loop sample_env ''data/dos'' [''a.csv'', ''b.csv'', ''c.csv''])
     = [''b.csv''] \<and>
   LogFailedList [''b.csv''] \<in> set (fst (process_all_files sample_env ''data/dos''))"
proof -
  let ?fs = "[''a.csv'', ''b.csv'', ''c.csv'']"
  have h: "listdir sample_env ''data/dos'' = Inr ?fs" by code_simp
  have ok: "filter (accepted sample_env ''data/dos'') (csv_files_of ?fs) = [''a.csv'', ''c.csv'']"
    by code_simp
  have s: "sum_list (map (parsed_rows sample_env ''data/dos'') [''a.csv'', ''c.csv'']) = 4"
    by code_simp
  have m: "''b.csv'' \<in> set (csv_files_of ?fs)" by code_simp
  have b: "\<not> accepted sample_env ''data/dos'' ''b.csv''" by code_simp
  have f: "filter (\<lambda>f. \<not> accepted sample_env ''data/dos'' f) (csv_files_of ?fs) = [''b.csv'']"
    by code_simp
  note t = process_all_files_row_count [OF h]
  from t [THEN conjunct1]
  have r: "snd (process_all_files sample_env ''data/dos'') =
     Inr (Some (concat_frames (valid_dataframes (run_loop sample_env ''data/dos'' ?fs))))"
    by (simp only: ok) simp
  from t [THEN conjunct2, THEN conjunct1]
  have n: "nrows (concat_frames (valid_dataframes (run_loop sample_env ''data/dos'' ?fs))) = 4"
    by (simp only: ok s)
  from t [THEN conjunct2, THEN conjunct2, THEN conjunct1]
  have o: "map origen (valid_dataframes (run_loop sample_env ''data/dos'' ?fs))
             = [Some ''a.csv'', Some ''c.csv'']"
    by (simp only: ok list.map)
  from t [THEN conjunct2, THEN conjunct2, THEN conjunct2, THEN conjunct2, THEN conjunct2,
          THEN conjunct1]
  have fl: "failed_files (run_loop sample_env ''data/dos'' ?fs) = [''b.csv'']"
    by (simp only: f)
  from t [THEN conjunct2, THEN conjunct2, THEN conjunct2, THEN conjunct2, THEN conjunct2,
          THEN conjunct2, THEN bspec, OF m, THEN mp, OF b, THEN conjunct2]
  have q: "LogFailedList [''b.csv''] \<in> set (fst (process_all_files sample_env ''data/dos''))"
    by (simp only: fl)
  show ?thesis
    apply (intro conjI)
            apply (rule h)
           apply (rule ok)
          apply (rule r)
         apply (rule n)
        apply (rule o)
       apply (rule m)
      apply (rule b)
     apply (rule fl)
    apply (rule q)
    done
qed

text \<open>The data set of the sample folder, and the run over a folder that does not exist.\<close>

theorem result_rows_and_columns_witness:
  "snd (process_all_files sample_env ''data/input'') =
     Inr (Some (concat_frames
        (valid_dataframes (run_loop sample_env ''data/input'' [''a.csv'', ''notas.txt'', ''b.csv''])))) \<and>
   0 < nrows (concat_frames
        (valid_dataframes (run_loop sample_env ''data/input'' [''a.csv'', ''notas.txt'', ''b.csv'']))) \<and>
   set required_colums \<union> {''archivo_origen'', ''fecha_procesamiento''} \<subseteq>
     set (columns (concat_frames
        (valid_dataframes (run_loop sample_env ''data/input'' [''a.csv'', ''notas.txt'', ''b.csv''])))) \<and>
   listdir sample_env ''nada'' = Inl FileNotFoundError \<and>
   snd (process_all_files sample_env ''nada'') = Inr None"
proof -
  let ?fs = "[''a.csv'', ''notas.txt'', ''b.csv'']"
  have r: "snd (process_all_files sample_env ''data/input'') =
     Inr (Some (concat_frames (valid_dataframes (run_loop sample_env ''data/input'' ?fs))))"
    by code_simp
  have h: "listdir sample_env ''nada'' = Inl FileNotFoundError" by code_simp
  have n: "snd (process_all_files sample_env ''nada'') = Inr None" by code_simp
  from result_rows_and_columns [of sample_env "''data/input''"] r h n show ?thesis by simp
qed


text \<open>The zero-byte file \<^verbatim>\<open>z.csv\<close> and the header-only file \<^verbatim>\<open>h.csv\<close>.\<close>

theorem empty_files_rejected_witness:
  "pd_read_csv sample_env (path_join ''data/vacios'' ''z.csv'') = Inl EmptyDataError \<and>
   printed (process_file sample_env ''data/vacios'' ''z.csv''
      \<lparr>valid_dataframes = [], processed_files = [], failed_files = [], clock_calls = 0,
       printed = []\<rparr>) =
     [LogProcessing ''z.csv'', LogReading ''data/vacios/z.csv'',
      LogEmptyFile ''data/vacios/z.csv'', LogFileFailed ''z.csv''] \<and>
   \<not> accepted sample_env ''data/vacios'' ''z.csv'' \<and>
   failed_files (process_file sample_env ''data/vacios'' ''z.csv''
      \<lparr>valid_dataframes = [], processed_files = [], failed_files = [], clock_calls = 0,
       printed = []\<rparr>) = [''z.csv''] \<and>
   ''z.csv'' \<in> set (failed_files (run_loop sample_env ''data/vacios'' [''z.csv''])) \<and>
   pd_read_csv sample_env (path_join ''data/cabecera'' ''h.csv'') = Inr frame_h \<and>
   nrows frame_h = 0 \<and>
   printed (process_file sample_env ''data/cabecera'' ''h.csv''
      \<lparr>valid_dataframes = [], processed_files = [], failed_files = [], clock_calls = 0,
       printed = []\<rparr>) =
     [LogProcessing ''h.csv'', LogReading ''data/cabecera/h.csv'', LogReadOk, LogRows 0,
      LogCols 5, LogValidating, LogValEmpty, LogFileFailed ''h.csv''] \<and>
   \<not> accepted sample_env ''data/cabecera'' ''h.csv'' \<and>
   valid_dataframes (process_file sample_env ''data/cabecera'' ''h.csv''
      \<lparr>valid_dataframes = [], processed_files = [], failed_files = [], clock_calls = 0,
       printed = []\<rparr>) = [] \<and>
   ''h.csv'' \<in> set (failed_files (run_loop sample_env ''data/cabecera'' [''h.csv'']))"
proof -
  let ?st = "\<lparr>valid_dataframes = [], processed_files = [], failed_files = [], clock_calls = 0,
       printed = []\<rparr>"
  have h1: "pd_read_csv sample_env (path_join ''data/vacios'' ''z.csv'') = Inl EmptyDataError"
    by code_simp
  have p1: "path_join ''data/vacios'' ''z.csv'' = ''data/vacios/z.csv''" by code_simp
  have c1: "''z.csv'' \<in> set (csv_files_of [''z.csv''])" by code_simp
  have h2: "pd_read_csv sample_env (path_join ''data/cabecera'' ''h.csv'') = Inr frame_h"
    by code_simp
  have p2: "path_join ''data/cabecera'' ''h.csv'' = ''data/cabecera/h.csv''" by code_simp
  have c2: "''h.csv'' \<in> set (csv_files_of [''h.csv''])" by code_simp
  have h3: "nrows frame_h = 0" by code_simp
  have w: "fst (convert_fecha sample_env frame_h) = []" by code_simp
  have k: "length (columns (snd (convert_fecha sample_env frame_h))) = 5" by code_simp
  from empty_files_rejected [of sample_env "''data/vacios''" "''z.csv''" ?st "[''z.csv'']"] h1 c1
  have z: "printed (process_file sample_env ''data/vacios'' ''z.csv'' ?st) =
     [LogProcessing ''z.csv'', LogReading ''data/vacios/z.csv'',
      LogEmptyFile ''data/vacios/z.csv'', LogFileFailed ''z.csv'']"
    and z1: "\<not> accepted sample_env ''data/vacios'' ''z.csv''"
    and z2: "failed_files (process_file sample_env ''data/vacios'' ''z.csv'' ?st) = [''z.csv'']"
    and z3: "''z.csv'' \<in> set (failed_files (run_loop sample_env ''data/vacios'' [''z.csv'']))"
    by (simp_all add: p1)
  from empty_files_rejected [of sample_env "''data/cabecera''" "''h.csv''" ?st "[''h.csv'']"]
    h2 h3 c2
  have y: "printed (process_file sample_env ''data/cabecera'' ''h.csv'' ?st) =
     [LogProcessing ''h.csv'', LogReading ''data/cabecera/h.csv'', LogReadOk, LogRows 0,
      LogCols 5, LogValidating, LogValEmpty, LogFileFailed ''h.csv'']"
    and y1: "\<not> accepted sample_env ''data/cabecera'' ''h.csv''"
    and y2: "valid_dataframes (process_file sample_env ''data/cabecera'' ''h.csv'' ?st) = []"
    and y3: "''h.csv'' \<in> set (failed_files (run_loop sample_env ''data/cabecera'' [''h.csv'']))"
    by (simp_all add: p2 w k)
  from h1 h2 h3 z z1 z2 z3 y y1 y2 y3 show ?thesis by simp
qed

end
